theory Spec2Isabelle
  imports Main
begin

section \<open>The code generator of tools/ibv\_code\_generator/generate-code.py\<close>

text \<open>
  The script reads function prototypes, one per line, builds a \<open>FunctionPrototype\<close>
  object per line and prints C text from these objects. This theory embeds the three
  classes and the emitters as HOL functions.

  Strings are \<open>char list\<close>. Every separator the script splits on is an ASCII character,
  and \<open>upper\<close> is modelled on the ASCII letters (C identifiers); other characters are
  left as they are. Python exceptions are values of \<open>py_error\<close>: a function that can
  raise returns \<open>py_error + 'a\<close>, with \<open>Inl\<close> for the exception. The import of
  \<open>generate_struct_conversions\<close> at the head of the script is never used and is not
  part of the model.
\<close>

subsection \<open>Python primitives\<close>

datatype py_error = NameError string | IndexError

definition py_bind :: "py_error + 'a \<Rightarrow> ('a \<Rightarrow> py_error + 'b) \<Rightarrow> py_error + 'b" where
  "py_bind m f = (case m of Inl e \<Rightarrow> Inl e | Inr x \<Rightarrow> f x)"

text \<open>\<open>xs[i]\<close>: a negative index counts from the end, an index outside the list raises.\<close>

definition py_index :: "'a list \<Rightarrow> int \<Rightarrow> py_error + 'a" where
  "py_index xs i =
     (if 0 \<le> i \<and> i < int (length xs) then Inr (xs ! nat i)
      else if i < 0 \<and> - int (length xs) \<le> i then Inr (xs ! nat (int (length xs) + i))
      else Inl IndexError)"

text \<open>\<open>[f(x) for x in xs]\<close> where \<open>f\<close> may raise: the first exception ends the comprehension.\<close>

fun map_result :: "('a \<Rightarrow> py_error + 'b) \<Rightarrow> 'a list \<Rightarrow> py_error + 'b list" where
  "map_result f [] = Inr []"
| "map_result f (x # xs) =
     py_bind (f x) (\<lambda>y. py_bind (map_result f xs) (\<lambda>ys. Inr (y # ys)))"

text \<open>\<open>s.split(c)\<close> for a separator of one character: never the empty list.\<close>

fun str_split :: "char \<Rightarrow> string \<Rightarrow> string list" where
  "str_split c [] = [[]]"
| "str_split c (x # xs) =
     (if x = c then [] # str_split c xs
      else (case str_split c xs of
              [] \<Rightarrow> [[x]]
            | w # ws \<Rightarrow> (x # w) # ws))"

text \<open>\<open>sep.join(xs)\<close>.\<close>

fun str_join :: "string \<Rightarrow> string list \<Rightarrow> string" where
  "str_join sep [] = []"
| "str_join sep [x] = x"
| "str_join sep (x # y # ys) = x @ sep @ str_join sep (y # ys)"

text \<open>\<open>xs or []\<close>: an empty (falsy) list is replaced by the fresh empty list.\<close>

definition or_empty :: "'a list \<Rightarrow> 'a list" where
  "or_empty xs = (if xs = [] then [] else xs)"

text \<open>\<open>s.upper()\<close> on ASCII letters.\<close>

definition upper_char :: "char \<Rightarrow> char" where
  "upper_char c =
     (case map_of (zip ''abcdefghijklmnopqrstuvwxyz'' ''ABCDEFGHIJKLMNOPQRSTUVWXYZ'') c of
        Some u \<Rightarrow> u
      | None \<Rightarrow> c)"

definition upper :: "string \<Rightarrow> string" where
  "upper s = map upper_char s"

text \<open>\<open>format(n, "X")\<close>: upper-case hexadecimal without prefix or padding, a minus sign
  in front of a negative number.\<close>

definition hex_digit :: "nat \<Rightarrow> char" where
  "hex_digit d = ''0123456789ABCDEF'' ! d"

function format_X_nat :: "nat \<Rightarrow> string" where
  "format_X_nat n =
     (if n < 16 then [hex_digit n] else format_X_nat (n div 16) @ [hex_digit (n mod 16)])"
  by pat_completeness auto
termination
  by (relation "measure id") auto

definition format_X :: "int \<Rightarrow> string" where
  "format_X n = (if n < 0 then CHR ''-'' # format_X_nat (nat (- n)) else format_X_nat (nat n))"

text \<open>\<open>enumerate(xs, start)\<close>.\<close>

fun enumerate_py :: "'a list \<Rightarrow> int \<Rightarrow> (int \<times> 'a) list" where
  "enumerate_py [] start = []"
| "enumerate_py (x # xs) start = (start, x) # enumerate_py xs (start + 1)"

text \<open>Iterating over a text file, whose content is the string as the text mode of Python
  presents it (every line end is one newline character): each line keeps its terminating
  newline; only a last line that the file does not terminate comes without one.\<close>

fun file_lines :: "string \<Rightarrow> string list" where
  "file_lines [] = []"
| "file_lines (c # cs) =
     (if c = CHR ''\<newline>'' then [c] # file_lines cs
      else (case file_lines cs of
              [] \<Rightarrow> [[c]]
            | l # ls \<Rightarrow> (c # l) # ls))"

abbreviation TAB :: char where "TAB \<equiv> CHR 0x09"
abbreviation DQUOTE :: char where "DQUOTE \<equiv> CHR 0x22"
abbreviation BACKSLASH :: char where "BACKSLASH \<equiv> CHR 0x5C"

subsection \<open>Module constants\<close>

definition PORT_NUMBER_START :: int where
  "PORT_NUMBER_START = 0x610"

text \<open>Every name the module's top-level statements bind: the imports, the constants,
  the classes, the functions and the variables of the main block. A bare name in a method
  body is looked up here (and among the module attributes and builtins of Python, none of
  which is called \<open>is_struct\<close>).\<close>

definition module_globals :: "string list" where
  "module_globals =
     [''print_function'', ''generate_struct_conversions'',
      ''SRC_PATH'', ''KERNEL_GEN_PATH'', ''KERNEL_HEADER_GEN_PATH'', ''UHYVE_CASES_GEN_PATH'',
      ''UHYVE_IBV_HEADER_GEN_PATH'', ''INCLUDE_STDDEF_GEN_PATH'', ''UHYVE_HOST_FCNS_GEN_PATH'',
      ''PORT_NUMBER_START'', ''TABS'', ''NEWLINES'',
      ''Type'', ''FunctionParameter'', ''FunctionPrototype'',
      ''generate_pretty_comment'', ''generate_kernel_header_declarations'',
      ''generate_kernel_function'', ''generate_uhyve_cases'', ''generate_uhyve_function'',
      ''generate_port_enum'', ''generate_port_macros'',
      ''prototypes'', ''f'', ''line'', ''pt'']"

definition load_global :: "string \<Rightarrow> py_error + string" where
  "load_global n = (if n \<in> set module_globals then Inr n else Inl (NameError n))"

subsection \<open>class Type\<close>

record Type =
  type_string :: string
  type_components :: "string list"

definition Type_init :: "string \<Rightarrow> Type" where
  "Type_init string =
     (let ts = string in \<lparr>type_string = ts, type_components = str_split CHR '' '' ts\<rparr>)"

definition is_struct :: "Type \<Rightarrow> py_error + bool" where
  "is_struct self = py_bind (py_index (type_components self) 0) (\<lambda>c. Inr (c = ''struct''))"

definition is_pointer :: "Type \<Rightarrow> py_error + bool" where
  "is_pointer self = py_bind (py_index (type_components self) (- 1)) (\<lambda>c. Inr (c = ''*''))"

definition is_pointer_pointer :: "Type \<Rightarrow> py_error + bool" where
  "is_pointer_pointer self =
     py_bind (py_index (type_components self) (- 1)) (\<lambda>c. Inr (c = ''**''))"

definition is_char_arr :: "Type \<Rightarrow> py_error + bool" where
  "is_char_arr self =
     py_bind (is_pointer self) (\<lambda>p. Inr (p \<and> ''char'' \<in> set (type_components self)))"

definition is_void :: "Type \<Rightarrow> bool" where
  "is_void self = (type_string self = ''void'')"

text \<open>The body of \<open>get_struct_name\<close> tests \<open>is_struct()\<close>, the bare name, not
  \<open>self.is_struct()\<close>. The name is resolved among the module's globals first; only if
  that succeeded would the test and the read of \<open>type_components[1]\<close> run.\<close>

definition get_struct_name :: "Type \<Rightarrow> py_error + string" where
  "get_struct_name self =
     (let name = [] in
      py_bind (load_global ''is_struct'') (\<lambda>_.
      py_bind (is_struct self) (\<lambda>b.
        if b then py_index (type_components self) 1 else Inr name)))"

subsection \<open>class FunctionParameter\<close>

record FunctionParameter =
  type :: Type
  name :: string

definition FunctionParameter_init :: "string \<Rightarrow> py_error + FunctionParameter" where
  "FunctionParameter_init string =
     (let components = str_split CHR '' '' string;
          type_string = str_join '' '' (butlast components)
      in py_bind (py_index components (- 1)) (\<lambda>n.
           Inr \<lparr>type = Type_init type_string, name = n\<rparr>))"

definition get_full_expression :: "FunctionParameter \<Rightarrow> string" where
  "get_full_expression self = type_string (type self) @ '' '' @ name self"

definition param_get_struct_name :: "FunctionParameter \<Rightarrow> py_error + string" where
  "param_get_struct_name self = get_struct_name (type self)"

definition param_is_struct :: "FunctionParameter \<Rightarrow> py_error + bool" where
  "param_is_struct self = is_struct (type self)"

definition param_is_pointer :: "FunctionParameter \<Rightarrow> py_error + bool" where
  "param_is_pointer self = is_pointer (type self)"

definition param_is_pointer_pointer :: "FunctionParameter \<Rightarrow> py_error + bool" where
  "param_is_pointer_pointer self = is_pointer_pointer (type self)"

subsection \<open>class FunctionPrototype\<close>

record FunctionPrototype =
  parameters :: "FunctionParameter list"
  ret :: Type
  function_name :: string

definition FunctionPrototype_init :: "string \<Rightarrow> py_error + FunctionPrototype" where
  "FunctionPrototype_init string =
     (let parens_split = str_split CHR ''('' string in
      py_bind (py_index parens_split 0) (\<lambda>left.
      let ret_and_name = str_split CHR '' '' left in
      py_bind (py_index parens_split (- 1)) (\<lambda>right.
      py_bind (py_index (str_split CHR '')'' right) 0) (\<lambda>all_params.
      let param_strings = str_split CHR '','' all_params in
      py_bind (map_result FunctionParameter_init param_strings) (\<lambda>ps.
      py_bind (py_index ret_and_name (- 1)) (\<lambda>fn.
        Inr \<lparr>parameters = ps,
             ret = Type_init (str_join '' '' (butlast ret_and_name)),
             function_name = fn\<rparr>))))))"

definition get_args_struct_name :: "FunctionPrototype \<Rightarrow> string" where
  "get_args_struct_name self = ''uhyve_'' @ function_name self @ ''_t''"

definition get_port_name :: "FunctionPrototype \<Rightarrow> string" where
  "get_port_name self = ''UHYVE_PORT_'' @ upper (function_name self)"

definition get_num_parameters :: "FunctionPrototype \<Rightarrow> nat" where
  "get_num_parameters self = length (parameters self)"

definition get_parameter_types :: "FunctionPrototype \<Rightarrow> string list" where
  "get_parameter_types self = map (\<lambda>param. type_string (type param)) (parameters self)"

definition get_uhyve_call_function_name :: "FunctionPrototype \<Rightarrow> string" where
  "get_uhyve_call_function_name self = ''call_'' @ function_name self"

definition get_string_of_parameters :: "FunctionPrototype \<Rightarrow> string" where
  "get_string_of_parameters self = str_join '', '' (map get_full_expression (parameters self))"

definition generate_function_declaration :: "FunctionPrototype \<Rightarrow> string" where
  "generate_function_declaration self =
     type_string (ret self) @ '' '' @ function_name self @ ''('' @
     get_string_of_parameters self @ '');\<newline>''"

definition generate_uhyve_function_declaration :: "FunctionPrototype \<Rightarrow> string" where
  "generate_uhyve_function_declaration self =
     (let name = get_uhyve_call_function_name self
      in ''void '' @ name @ ''(struct kvm_run * run, uint8_t * guest_mem);\<newline>'')"

text \<open>The loop of \<open>generate_args_struct\<close> over the parameters, appending to \<open>code\<close>.\<close>

fun args_struct_fields :: "FunctionParameter list \<Rightarrow> string \<Rightarrow> string" where
  "args_struct_fields [] code = code"
| "args_struct_fields (param # rest) code =
     args_struct_fields rest (code @ TAB # get_full_expression param @ '';\<newline>'')"

definition generate_args_struct :: "FunctionPrototype \<Rightarrow> string" where
  "generate_args_struct self =
     (let code = ''typedef struct {\<newline>'';
          code = code @ TAB # ''// Parameters:\<newline>'';
          code = args_struct_fields (or_empty (parameters self)) code;
          code = (if \<not> is_void (ret self)
                  then (code @ TAB # ''// Return value:\<newline>'')
                       @ TAB # type_string (ret self) @ '' ret;\<newline>''
                  else code);
          code = code @ ''} __attribute__((packed)) '' @ get_args_struct_name self
                      @ '';\<newline>\<newline>''
      in code)"

subsection \<open>The emitters\<close>

definition generate_pretty_comment :: "string \<Rightarrow> string" where
  "generate_pretty_comment string = ''/*\<newline> * '' @ string @ ''\<newline> */\<newline>\<newline>''"

fun kernel_header_loop :: "FunctionPrototype list \<Rightarrow> string \<Rightarrow> string" where
  "kernel_header_loop [] code = code"
| "kernel_header_loop (pt # rest) code =
     kernel_header_loop rest (code @ generate_function_declaration pt)"

definition generate_kernel_header_declarations :: "FunctionPrototype list \<Rightarrow> string" where
  "generate_kernel_header_declarations function_prototypes =
     kernel_header_loop function_prototypes []"

text \<open>The loop of \<open>generate_kernel_function\<close> over the parameters. The test
  \<open>p.is_pointer_pointer()\<close> reads the last type component and so may raise.\<close>

fun kernel_function_params :: "FunctionParameter list \<Rightarrow> string \<Rightarrow> py_error + string" where
  "kernel_function_params [] code = Inr code"
| "kernel_function_params (p # rest) code =
     py_bind (param_is_pointer_pointer p) (\<lambda>pp.
       if pp then kernel_function_params rest (code @ TAB # ''// TODO: Take care of ** parameter.\<newline>'')
       else kernel_function_params rest
              (code @ TAB # ''uhyve_args.'' @ name p @ '' = '' @ name p @ '';\<newline>''))"

definition generate_kernel_function :: "FunctionPrototype \<Rightarrow> py_error + string" where
  "generate_kernel_function function_prototype =
     (let fnc_name = function_name function_prototype;
          ret_type = ret function_prototype;
          params = parameters function_prototype;
          port_name = get_port_name function_prototype;
          comma_separated_params = get_string_of_parameters function_prototype;
          code = type_string ret_type @ '' '' @ fnc_name @ ''('' @ comma_separated_params
                 @ '') {\<newline>'';
          code = code @ TAB # get_args_struct_name function_prototype @ '' uhyve_args;\<newline>''
      in py_bind (kernel_function_params (or_empty params) code) (\<lambda>code.
         let code = code @ ''\<newline>'';
             code = code @ TAB # ''uhyve_send('' @ port_name
                    @ '', (unsigned) virt_to_phys((size_t) &uhyve_args));\<newline>'';
             code = (if \<not> is_void ret_type
                     then code @ ''\<newline>'' @ TAB # ''return uhyve_args.ret;\<newline>''
                     else code);
             code = code @ ''}\<newline>\<newline>''
         in Inr code))"

fun uhyve_cases_loop :: "FunctionPrototype list \<Rightarrow> string \<Rightarrow> string" where
  "uhyve_cases_loop [] code = code"
| "uhyve_cases_loop (pt # rest) code =
     (let call_fnc_name = get_uhyve_call_function_name pt;
          port_name = get_port_name pt;
          code = code @ [TAB, TAB, TAB] @ ''case '' @ port_name @ '':\<newline>'';
          code = code @ [TAB, TAB, TAB, TAB] @ call_fnc_name @ ''(run, guest_mem);\<newline>'';
          code = code @ [TAB, TAB, TAB, TAB] @ ''break;\<newline>''
      in uhyve_cases_loop rest code)"

definition generate_uhyve_cases :: "FunctionPrototype list \<Rightarrow> string" where
  "generate_uhyve_cases function_prototypes =
     (let code = [TAB, TAB, TAB] @ ''case UHYVE_PORT_SET_IB_POOL_ADDR: {\<newline>'';
          code = code @ [TAB, TAB, TAB, TAB, TAB]
                 @ ''unsigned data = *((unsigned*)((size_t)run+run->io.data_offset));\<newline>'';
          code = code @ [TAB, TAB, TAB, TAB, TAB]
                 @ ''uint64_t * temp = (uint64_t*)(guest_mem + data);\<newline>'';
          code = code @ [TAB, TAB, TAB, TAB, TAB] @ ''ib_pool_addr = (uint8_t*) *temp;\<newline>'';
          code = code @ [TAB, TAB, TAB, TAB, TAB] @ ''ib_pool_top = ib_pool_addr;\<newline>'';
          code = code @ [TAB, TAB, TAB, TAB, TAB] @ ''break;\<newline>'';
          code = code @ [TAB, TAB, TAB] @ ''}\<newline>\<newline>''
      in uhyve_cases_loop function_prototypes code)"

fun uhyve_function_args :: "FunctionParameter list \<Rightarrow> string \<Rightarrow> string" where
  "uhyve_function_args [] code = code"
| "uhyve_function_args (param # rest) code =
     uhyve_function_args rest (code @ ''args->'' @ name param @ '', '')"

text \<open>In \<open>generate_uhyve_function\<close> the read of \<open>parameters[-1]\<close> stands under the
  test that there is a parameter, so it is the last element.\<close>

definition generate_uhyve_function :: "FunctionPrototype \<Rightarrow> string" where
  "generate_uhyve_function prototype =
     (let args_struct_name = get_args_struct_name prototype;
          fnc_name = function_name prototype;
          ret_type = ret prototype;
          code = generate_pretty_comment fnc_name;
          code = code @ ''void call_'' @ fnc_name
                 @ ''(struct kvm_run * run, uint8_t * guest_mem) {\<newline>'';
          code = code @ TAB # ''printf('' @ [DQUOTE] @ ''LOG: UHYVE - call_'' @ fnc_name
                 @ [BACKSLASH] @ ''n'' @ [DQUOTE] @ '');\<newline>'';
          code = code @ TAB
                 # ''unsigned data = *((unsigned*) ((size_t) run + run->io.data_offset));\<newline>'';
          code = code @ TAB # args_struct_name @ '' * args = ('' @ args_struct_name
                 @ '' *) (guest_mem + data);\<newline>\<newline>'';
          code = code @ TAB # ''use_ib_mem_pool = true;\<newline>'';
          code = code @ ([TAB] @ (if \<not> is_void ret_type then ''args->ret = '' else [])
                 @ (fnc_name @ ''(''));
          code = (if get_num_parameters prototype > 0
                  then uhyve_function_args (or_empty (butlast (parameters prototype))) code
                       @ ''args->'' @ name (last (parameters prototype)) @ '');\<newline>''
                  else code);
          code = code @ TAB # ''use_ib_mem_pool = false;\<newline>}\<newline>\<newline>\<newline>''
      in code)"

text \<open>The two port tables. The loops run over \<open>enumerate(function_prototypes, start)\<close>;
  the script's start value is the module constant \<open>PORT_NUMBER_START\<close>, the bodies are
  stated for any start value.\<close>

fun port_enum_loop :: "(int \<times> FunctionPrototype) list \<Rightarrow> string \<Rightarrow> string" where
  "port_enum_loop [] code = code"
| "port_enum_loop ((num, pt) # rest) code =
     (let port_name = get_port_name pt
      in port_enum_loop rest
           (code @ TAB # port_name @ '' = 0x'' @ format_X num @ '',\<newline>''))"

definition generate_port_enum_from :: "int \<Rightarrow> FunctionPrototype list \<Rightarrow> string" where
  "generate_port_enum_from start function_prototypes =
     (let code = ''typedef enum {\<newline>'';
          code = code @ TAB # ''UHYVE_PORT_SET_IB_POOL_ADDR = 0x'' @ format_X (start - 1)
                 @ '',\<newline>'';
          code = port_enum_loop (enumerate_py function_prototypes start) code;
          code = code @ ''} uhyve_ibv_t;''
      in code)"

definition generate_port_enum :: "FunctionPrototype list \<Rightarrow> string" where
  "generate_port_enum function_prototypes =
     generate_port_enum_from PORT_NUMBER_START function_prototypes"

fun port_macros_loop :: "(int \<times> FunctionPrototype) list \<Rightarrow> string \<Rightarrow> string" where
  "port_macros_loop [] code = code"
| "port_macros_loop ((num, pt) # rest) code =
     (let port_name = get_port_name pt
      in port_macros_loop rest
           (code @ ''#define '' @ port_name @ '' 0x'' @ format_X num @ ''\<newline>''))"

definition generate_port_macros_from :: "int \<Rightarrow> FunctionPrototype list \<Rightarrow> string" where
  "generate_port_macros_from start function_prototypes =
     (let code = ''#define UHYVE_PORT_SET_IB_POOL_ADDR 0x'' @ format_X (start - 1)
                 @ ''\<newline>''
      in port_macros_loop (enumerate_py function_prototypes start) code)"

definition generate_port_macros :: "FunctionPrototype list \<Rightarrow> string" where
  "generate_port_macros function_prototypes =
     generate_port_macros_from PORT_NUMBER_START function_prototypes"

subsection \<open>The input loop of the main program\<close>

text \<open>\<open>for line in f: if line: prototypes.append(FunctionPrototype(line))\<close>.\<close>

fun read_prototypes :: "string list \<Rightarrow> FunctionPrototype list \<Rightarrow> py_error + FunctionPrototype list" where
  "read_prototypes [] prototypes = Inr prototypes"
| "read_prototypes (line # rest) prototypes =
     (if line \<noteq> []
      then py_bind (FunctionPrototype_init line) (\<lambda>p. read_prototypes rest (prototypes @ [p]))
      else read_prototypes rest prototypes)"

definition main_prototypes :: "string \<Rightarrow> py_error + FunctionPrototype list" where
  "main_prototypes text = read_prototypes (file_lines text) []"

subsection \<open>What the constructors compute\<close>

text \<open>No index read of the constructors can fail, because \<open>split\<close> never returns the
  empty list. The two functions below are the values the constructors then build; the
  lemmas \<open>FunctionParameter_init_total\<close> and \<open>FunctionPrototype_init_total\<close> prove
  it.\<close>

definition parsed_parameter :: "string \<Rightarrow> FunctionParameter" where
  "parsed_parameter s =
     \<lparr>type = Type_init (str_join '' '' (butlast (str_split CHR '' '' s))),
      name = last (str_split CHR '' '' s)\<rparr>"

definition parameter_fragments :: "string \<Rightarrow> string list" where
  "parameter_fragments line =
     str_split CHR '','' (hd (str_split CHR '')'' (last (str_split CHR ''('' line))))"

definition parsed_prototype :: "string \<Rightarrow> FunctionPrototype" where
  "parsed_prototype line =
     \<lparr>parameters = map parsed_parameter (parameter_fragments line),
      ret = Type_init (str_join '' ''
              (butlast (str_split CHR '' '' (hd (str_split CHR ''('' line))))),
      function_name = last (str_split CHR '' '' (hd (str_split CHR ''('' line)))\<rparr>"

subsection \<open>The port table in the words of the specification\<close>

text \<open>The specification describes the port assignment as a table: one reserved code,
  \<open>base - 1\<close>, for the control operation, then \<open>base + i\<close> for the \<open>i\<close>-th prototype in
  input order, each under the prototype's port name. \<open>enum_binding\<close> and
  \<open>macro_binding\<close> are the two ways a binding of the table is written in C. These three
  definitions follow the specification; the emitters above follow the script, and the two
  are compared below.\<close>

definition spec_port_table :: "int \<Rightarrow> FunctionPrototype list \<Rightarrow> (string \<times> int) list" where
  "spec_port_table base pts =
     (''UHYVE_PORT_SET_IB_POOL_ADDR'', base - 1)
     # map (\<lambda>i. (get_port_name (pts ! i), base + int i)) [0..<length pts]"

definition enum_binding :: "string \<times> int \<Rightarrow> string" where
  "enum_binding b = TAB # fst b @ '' = 0x'' @ format_X (snd b) @ '',\<newline>''"

definition macro_binding :: "string \<times> int \<Rightarrow> string" where
  "macro_binding b = ''#define '' @ fst b @ '' 0x'' @ format_X (snd b) @ ''\<newline>''"

section \<open>Properties\<close>

subsection \<open>The error monad and indexing\<close>

lemma py_bind_Inr [simp]: "py_bind (Inr x) f = f x"
  by (simp add: py_bind_def)

lemma py_bind_Inl [simp]: "py_bind (Inl e) f = Inl e"
  by (simp add: py_bind_def)

lemma py_index_first: "xs \<noteq> [] \<Longrightarrow> py_index xs 0 = Inr (hd xs)"
  by (cases xs) (simp_all add: py_index_def)

lemma py_index_last: "xs \<noteq> [] \<Longrightarrow> py_index xs (- 1) = Inr (last xs)"
  by (cases xs rule: rev_cases) (simp_all add: py_index_def nth_append)

lemma map_result_total: "(\<And>x. f x = Inr (g x)) \<Longrightarrow> map_result f xs = Inr (map g xs)"
  by (induction xs) simp_all

lemma str_split_not_Nil: "str_split c s \<noteq> []"
  by (induction s) (auto split: list.splits)

subsection \<open>The constructors never raise\<close>

lemma FunctionParameter_init_total: "FunctionParameter_init s = Inr (parsed_parameter s)"
  by (simp add: FunctionParameter_init_def parsed_parameter_def Let_def py_index_last
      str_split_not_Nil)

lemma FunctionPrototype_init_total: "FunctionPrototype_init line = Inr (parsed_prototype line)"
  by (simp add: FunctionPrototype_init_def parsed_prototype_def parameter_fragments_def Let_def
      py_index_first py_index_last str_split_not_Nil
      map_result_total [of FunctionParameter_init parsed_parameter,
        OF FunctionParameter_init_total])

lemma parameters_never_empty:
  "FunctionPrototype_init line = Inr p \<Longrightarrow> parameters p \<noteq> []"
  by (auto simp: FunctionPrototype_init_total parsed_prototype_def parameter_fragments_def
      str_split_not_Nil)

subsection \<open>Zero parameters\<close>

text \<open>
  C1. A prototype line with an empty parameter list is meant to give an empty list of
  parameters. The constructor gives one parameter whose type string and name are both
  empty: \<open>"".split(",")\<close> is \<open>[""]\<close>, and nothing special-cases it. The same happens
  for a parameter list that holds one space.
\<close>

theorem zero_parameters_phantom:
  "FunctionPrototype_init ''void f()'' =
     Inr \<lparr>parameters = [\<lparr>type = \<lparr>type_string = [], type_components = [[]]\<rparr>, name = []\<rparr>],
          ret = \<lparr>type_string = ''void'', type_components = [''void'']\<rparr>,
          function_name = ''f''\<rparr>
   \<and> FunctionPrototype_init ''void f( )'' =
     Inr \<lparr>parameters = [\<lparr>type = \<lparr>type_string = [], type_components = [[]]\<rparr>, name = []\<rparr>],
          ret = \<lparr>type_string = ''void'', type_components = [''void'']\<rparr>,
          function_name = ''f''\<rparr>"
  by code_simp

subsection \<open>The type classifier\<close>

lemma get_struct_name_raises: "get_struct_name t = Inl (NameError ''is_struct'')"
  by (simp add: get_struct_name_def load_global_def module_globals_def)

lemma is_struct_iff:
  "is_struct (Type_init s) = Inr (hd (str_split CHR '' '' s) = ''struct'')"
  by (simp add: is_struct_def Type_init_def py_index_first str_split_not_Nil)

lemma is_pointer_iff:
  "is_pointer (Type_init s) = Inr (last (str_split CHR '' '' s) = ''*'')"
  by (simp add: is_pointer_def Type_init_def py_index_last str_split_not_Nil)

lemma is_pointer_pointer_iff:
  "is_pointer_pointer (Type_init s) = Inr (last (str_split CHR '' '' s) = ''**'')"
  by (simp add: is_pointer_pointer_def Type_init_def py_index_last str_split_not_Nil)

lemma is_char_arr_iff:
  "is_char_arr (Type_init s) =
     Inr (last (str_split CHR '' '' s) = ''*'' \<and> ''char'' \<in> set (str_split CHR '' '' s))"
  by (simp add: is_char_arr_def is_pointer_iff) (simp add: Type_init_def)

text \<open>
  C2. The classifier reports a struct exactly when the first token is \<open>struct\<close>, and
  \<open>struct ibv_context **\<close> is a struct and a pointer to a pointer. The struct tag is
  meant to be the second token, \<open>ibv_context\<close>; the accessor raises NameError instead,
  because it calls the bare name \<open>is_struct\<close>.
\<close>

theorem struct_tag_raises:
  "is_struct (Type_init ''struct ibv_context **'') = Inr True
   \<and> is_pointer_pointer (Type_init ''struct ibv_context **'') = Inr True
   \<and> is_pointer (Type_init ''struct ibv_context **'') = Inr False
   \<and> py_index (type_components (Type_init ''struct ibv_context **'')) 1 = Inr ''ibv_context''
   \<and> get_struct_name (Type_init ''struct ibv_context **'') = Inl (NameError ''is_struct'')"
  by code_simp

text \<open>
  C8. No accessor of the classifier is meant to raise. The accessors for the struct kind,
  the pointer, the pointer to a pointer, the char array and void return a value for every
  type string; the accessor for the struct tag raises NameError for every type string,
  here for \<open>int\<close> and for the empty string.
\<close>

theorem classifier_accessor_raises:
  "get_struct_name (Type_init ''int'') = Inl (NameError ''is_struct'')
   \<and> get_struct_name (Type_init []) = Inl (NameError ''is_struct'')
   \<and> is_struct (Type_init ''int'') = Inr False
   \<and> is_pointer (Type_init ''int'') = Inr False
   \<and> is_pointer_pointer (Type_init ''int'') = Inr False
   \<and> is_char_arr (Type_init ''int'') = Inr False
   \<and> is_void (Type_init ''int'') = False"
  by code_simp

subsection \<open>The input loop\<close>

lemma file_lines_nonempty: "[] \<notin> set (file_lines t)"
  by (induction t) (auto split: list.splits)

lemma read_prototypes_total:
  "[] \<notin> set ls \<Longrightarrow> read_prototypes ls acc = Inr (acc @ map parsed_prototype ls)"
  by (induction ls arbitrary: acc) (auto simp: FunctionPrototype_init_total)

lemma main_prototypes_every_line:
  "main_prototypes t = Inr (map parsed_prototype (file_lines t))"
  by (simp add: main_prototypes_def read_prototypes_total file_lines_nonempty)

text \<open>
  C7. Blank lines are meant to be skipped. A line read from the file keeps its newline,
  so the test \<open>if line\<close> holds for a blank line too, and the line is parsed: the input
  below has two prototypes and a blank line between them, and three models come out, the
  second with the newline as its function name.
\<close>

theorem blank_line_parsed:
  "main_prototypes ''int f(int a)\<newline>\<newline>int g(int b)\<newline>'' =
     Inr [\<lparr>parameters = [\<lparr>type = \<lparr>type_string = ''int'', type_components = [''int'']\<rparr>,
                           name = ''a''\<rparr>],
           ret = \<lparr>type_string = ''int'', type_components = [''int'']\<rparr>,
           function_name = ''f''\<rparr>,
          \<lparr>parameters = [\<lparr>type = \<lparr>type_string = [], type_components = [[]]\<rparr>,
                           name = ''\<newline>''\<rparr>],
           ret = \<lparr>type_string = [], type_components = [[]]\<rparr>,
           function_name = ''\<newline>''\<rparr>,
          \<lparr>parameters = [\<lparr>type = \<lparr>type_string = ''int'', type_components = [''int'']\<rparr>,
                           name = ''b''\<rparr>],
           ret = \<lparr>type_string = ''int'', type_components = [''int'']\<rparr>,
           function_name = ''g''\<rparr>]"
  by code_simp

subsection \<open>Splitting and joining\<close>

lemma str_split_elems:
  "f \<in> set (str_split c s) \<Longrightarrow> c \<notin> set f \<and> set f \<subseteq> set s"
proof (induction s arbitrary: f)
  case Nil
  then show ?case by simp
next
  case (Cons x s)
  show ?case
  proof (cases "x = c")
    case True
    with Cons show ?thesis by auto
  next
    case False
    obtain w ws where ws: "str_split c s = w # ws"
      using str_split_not_Nil [of c s] by (cases "str_split c s") auto
    from Cons.prems False ws have "f = x # w \<or> f \<in> set ws"
      by simp
    then show ?thesis
    proof
      assume "f = x # w"
      moreover have "c \<notin> set w \<and> set w \<subseteq> set s"
        using Cons.IH [of w] ws by simp
      ultimately show ?thesis using False by auto
    next
      assume "f \<in> set ws"
      then have "c \<notin> set f \<and> set f \<subseteq> set s"
        using Cons.IH [of f] ws by simp
      then show ?thesis by auto
    qed
  qed
qed

lemma str_split_no_sep: "c \<notin> set s \<Longrightarrow> str_split c s = [s]"
  by (induction s) auto

lemma str_split_prefix: "c \<notin> set x \<Longrightarrow> str_split c (x @ c # r) = x # str_split c r"
  by (induction x) auto

lemma str_split_suffix: "c \<notin> set n \<Longrightarrow> str_split c (t @ c # n) = str_split c t @ [n]"
proof (induction t)
  case Nil
  then show ?case by (simp add: str_split_no_sep)
next
  case (Cons x t)
  obtain w ws where ws: "str_split c t = w # ws"
    using str_split_not_Nil [of c t] by (cases "str_split c t") auto
  with Cons show ?case by simp
qed

lemma str_join_Cons_Cons: "str_join sep ((x # w) # ws) = x # str_join sep (w # ws)"
  by (cases ws) simp_all

lemma str_join_str_split: "str_join [c] (str_split c s) = s"
proof (induction s)
  case Nil
  show ?case by simp
next
  case (Cons x s)
  obtain w ws where ws: "str_split c s = w # ws"
    using str_split_not_Nil [of c s] by (cases "str_split c s") auto
  show ?case
  proof (cases "x = c")
    case True
    with Cons ws show ?thesis by simp
  next
    case False
    with Cons ws show ?thesis by (simp add: str_join_Cons_Cons)
  qed
qed

lemma str_join_chars: "set (str_join sep xs) \<subseteq> set sep \<union> \<Union> (set ` set xs)"
  by (induction sep xs rule: str_join.induct) auto

lemma str_split_comma_join:
  "xs \<noteq> [] \<Longrightarrow> (\<And>x. x \<in> set xs \<Longrightarrow> CHR '','' \<notin> set x) \<Longrightarrow>
   str_split CHR '','' (str_join '', '' xs) = hd xs # map ((#) CHR '' '') (tl xs)"
proof (induction xs rule: induct_list012)
  case 1
  then show ?case by simp
next
  case (2 x)
  then show ?case by (simp add: str_split_no_sep)
next
  case (3 x y zs)
  have ih: "str_split CHR '','' (str_join '', '' (y # zs)) = y # map ((#) CHR '' '') zs"
    using "3.IH"(2) "3.prems"(2) by simp
  have "str_split CHR '','' (str_join '', '' (x # y # zs))
        = x # str_split CHR '','' (CHR '' '' # str_join '', '' (y # zs))"
    using "3.prems"(2) [of x] by (simp add: str_split_prefix)
  also have "\<dots> = x # (CHR '' '' # y) # map ((#) CHR '' '') zs"
    by (simp add: ih)
  finally show ?case by simp
qed

lemma type_string_Type_init [simp]: "type_string (Type_init s) = s"
  by (simp add: Type_init_def Let_def)

lemma type_components_Type_init [simp]:
  "type_components (Type_init s) = str_split CHR '' '' s"
  by (simp add: Type_init_def Let_def)

lemma full_expression_parsed:
  "get_full_expression (parsed_parameter f) =
     str_join '' '' (butlast (str_split CHR '' '' f)) @ CHR '' '' # last (str_split CHR '' '' f)"
  by (simp add: get_full_expression_def parsed_parameter_def)

lemma last_split_no_sep: "c \<notin> set (last (str_split c f))"
  using str_split_elems [of "last (str_split c f)" c f] str_split_not_Nil [of c f]
  by simp

lemma split_full_expression:
  "str_split CHR '' '' (get_full_expression (parsed_parameter f)) =
     str_split CHR '' '' (str_join '' '' (butlast (str_split CHR '' '' f)))
     @ [last (str_split CHR '' '' f)]"
  by (simp add: full_expression_parsed str_split_suffix last_split_no_sep)

lemma reparse_parameter:
  "parsed_parameter (get_full_expression (parsed_parameter f)) = parsed_parameter f"
  by (simp add: parsed_parameter_def [of "get_full_expression (parsed_parameter f)"]
      split_full_expression str_join_str_split)
     (simp add: parsed_parameter_def)

lemma str_join_Nil_Cons: "ys \<noteq> [] \<Longrightarrow> str_join sep ([] # ys) = sep @ str_join sep ys"
  by (cases ys) simp_all

lemma reparse_parameter_space:
  "parsed_parameter (CHR '' '' # get_full_expression (parsed_parameter f)) =
     (parsed_parameter f)\<lparr>type := Type_init (CHR '' '' # type_string (type (parsed_parameter f)))\<rparr>"
  by (simp add: parsed_parameter_def [of "CHR '' '' # get_full_expression (parsed_parameter f)"]
      split_full_expression str_split_not_Nil butlast_append str_join_Nil_Cons str_join_str_split)
     (simp add: parsed_parameter_def)

lemma full_expression_chars:
  "set (get_full_expression (parsed_parameter f)) \<subseteq> insert CHR '' '' (set f)"
proof -
  let ?cs = "str_split CHR '' '' f"
  have a: "set (last ?cs) \<subseteq> set f"
    using str_split_elems [of "last ?cs" "CHR '' ''" f] str_split_not_Nil [of "CHR '' ''" f]
    by simp
  have "\<And>x. x \<in> set (butlast ?cs) \<Longrightarrow> set x \<subseteq> set f"
    using str_split_elems [of _ "CHR '' ''" f] by (auto dest: in_set_butlastD)
  then have b: "set (str_join '' '' (butlast ?cs)) \<subseteq> insert CHR '' '' (set f)"
    using str_join_chars [of "'' ''" "butlast ?cs"] by auto
  show ?thesis
    using a b by (auto simp: full_expression_parsed)
qed

lemma fragment_chars:
  assumes "f \<in> set (parameter_fragments line)"
  shows "CHR '','' \<notin> set f \<and> CHR ''('' \<notin> set f \<and> CHR '')'' \<notin> set f"
proof -
  let ?right = "last (str_split CHR ''('' line)"
  let ?all = "hd (str_split CHR '')'' ?right)"
  have r: "CHR ''('' \<notin> set ?right"
    by (rule last_split_no_sep)
  have "?all \<in> set (str_split CHR '')'' ?right)"
    by (simp add: str_split_not_Nil)
  then have a: "CHR '')'' \<notin> set ?all \<and> set ?all \<subseteq> set ?right"
    by (rule str_split_elems)
  from assms have "CHR '','' \<notin> set f \<and> set f \<subseteq> set ?all"
    unfolding parameter_fragments_def by (rule str_split_elems)
  with a r show ?thesis by auto
qed

lemma parameter_fragments_plain:
  assumes "CHR ''('' \<notin> set s" and "CHR '')'' \<notin> set s"
  shows "parameter_fragments s = str_split CHR '','' s"
  using assms by (simp add: parameter_fragments_def str_split_no_sep)

lemma str_join_avoids:
  "c \<notin> set sep \<Longrightarrow> (\<And>x. x \<in> set xs \<Longrightarrow> c \<notin> set x) \<Longrightarrow> c \<notin> set (str_join sep xs)"
  by (induction sep xs rule: str_join.induct) auto

lemma full_expression_avoids:
  assumes "f \<in> set (parameter_fragments line)" and "c \<in> {CHR '','', CHR ''('', CHR '')''}"
  shows "c \<notin> set (get_full_expression (parsed_parameter f))"
proof -
  have "c \<notin> set f"
    using fragment_chars [OF assms(1)] assms(2) by auto
  moreover have "c \<noteq> CHR '' ''"
    using assms(2) by auto
  ultimately show ?thesis
    using full_expression_chars [of f] by auto
qed

lemma string_of_parameters_parsed:
  "get_string_of_parameters (parsed_prototype line) =
     str_join '', '' (map (\<lambda>f. get_full_expression (parsed_parameter f)) (parameter_fragments line))"
  by (simp add: get_string_of_parameters_def parsed_prototype_def comp_def)

lemma string_of_parameters_avoids:
  assumes "c \<in> {CHR ''('', CHR '')''}"
  shows "c \<notin> set (get_string_of_parameters (parsed_prototype line))"
  unfolding string_of_parameters_parsed
proof (rule str_join_avoids)
  show "c \<notin> set '', ''" using assms by auto
next
  fix x
  assume "x \<in> set (map (\<lambda>f. get_full_expression (parsed_parameter f)) (parameter_fragments line))"
  then obtain f where f: "f \<in> set (parameter_fragments line)"
    and x: "x = get_full_expression (parsed_parameter f)"
    by auto
  show "c \<notin> set x"
    unfolding x using f assms by (intro full_expression_avoids) auto
qed

lemma reparse_fragments:
  "parameter_fragments (get_string_of_parameters (parsed_prototype line)) =
     get_full_expression (parsed_parameter (hd (parameter_fragments line)))
     # map (\<lambda>f. CHR '' '' # get_full_expression (parsed_parameter f)) (tl (parameter_fragments line))"
proof -
  let ?fs = "parameter_fragments line"
  let ?es = "map (\<lambda>f. get_full_expression (parsed_parameter f)) ?fs"
  have fs: "?fs \<noteq> []"
    by (simp add: parameter_fragments_def str_split_not_Nil)
  then have es: "?es \<noteq> []" by simp
  have no_comma: "\<And>e. e \<in> set ?es \<Longrightarrow> CHR '','' \<notin> set e"
  proof -
    fix e assume "e \<in> set ?es"
    then obtain f where "f \<in> set ?fs" and "e = get_full_expression (parsed_parameter f)"
      by auto
    then show "CHR '','' \<notin> set e"
      using full_expression_avoids [of f line "CHR '',''"] by simp
  qed
  have "parameter_fragments (get_string_of_parameters (parsed_prototype line)) =
          str_split CHR '','' (get_string_of_parameters (parsed_prototype line))"
    by (rule parameter_fragments_plain) (simp_all add: string_of_parameters_avoids)
  also have "\<dots> = str_split CHR '','' (str_join '', '' ?es)"
    by (simp only: string_of_parameters_parsed)
  also have "\<dots> = hd ?es # map ((#) CHR '' '') (tl ?es)"
    using es no_comma by (rule str_split_comma_join)
  also have "\<dots> = get_full_expression (parsed_parameter (hd ?fs))
     # map (\<lambda>f. CHR '' '' # get_full_expression (parsed_parameter f)) (tl ?fs)"
    using fs by (cases ?fs) (simp_all add: comp_def)
  finally show ?thesis .
qed

lemma parameters_parsed:
  "parameters (parsed_prototype s) = map parsed_parameter (parameter_fragments s)"
  by (simp add: parsed_prototype_def)

lemma reparse_parameters:
  "parameters (parsed_prototype (get_string_of_parameters (parsed_prototype line))) =
     hd (parameters (parsed_prototype line))
     # map (\<lambda>a. a\<lparr>type := Type_init (CHR '' '' # type_string (type a))\<rparr>)
         (tl (parameters (parsed_prototype line)))"
proof -
  have fs: "parameter_fragments line \<noteq> []"
    by (simp add: parameter_fragments_def str_split_not_Nil)
  show ?thesis
    unfolding parameters_parsed reparse_fragments
    using fs
    by (cases "parameter_fragments line")
       (simp_all add: reparse_parameter reparse_parameter_space comp_def)
qed

text \<open>
  C3 (as the specification states it). Re-parsing the canonical parameter string is said
  to give back identical parameters. It does not: the canonical string joins the
  parameters with a comma and a space, the parser splits on the comma alone, so the
  second parameter of \<open>int f(int a, int b)\<close>, whose type string is \<open>int\<close> after a
  space, comes back with two spaces in front of \<open>int\<close>.
\<close>

theorem roundtrip_counterexample:
  "FunctionPrototype_init ''int f(int a, int b)'' =
     Inr \<lparr>parameters =
            [\<lparr>type = \<lparr>type_string = ''int'', type_components = [''int'']\<rparr>, name = ''a''\<rparr>,
             \<lparr>type = \<lparr>type_string = '' int'', type_components = [[], ''int'']\<rparr>, name = ''b''\<rparr>],
          ret = \<lparr>type_string = ''int'', type_components = [''int'']\<rparr>,
          function_name = ''f''\<rparr>
   \<and> get_string_of_parameters
       \<lparr>parameters =
            [\<lparr>type = \<lparr>type_string = ''int'', type_components = [''int'']\<rparr>, name = ''a''\<rparr>,
             \<lparr>type = \<lparr>type_string = '' int'', type_components = [[], ''int'']\<rparr>, name = ''b''\<rparr>],
          ret = \<lparr>type_string = ''int'', type_components = [''int'']\<rparr>,
          function_name = ''f''\<rparr> = ''int a,  int b''
   \<and> FunctionPrototype_init ''int a,  int b'' =
     Inr \<lparr>parameters =
            [\<lparr>type = \<lparr>type_string = ''int'', type_components = [''int'']\<rparr>, name = ''a''\<rparr>,
             \<lparr>type = \<lparr>type_string = ''  int'', type_components = [[], [], ''int'']\<rparr>,
                name = ''b''\<rparr>],
          ret = \<lparr>type_string = ''int a,  int'',
                 type_components = [''int'', ''a,'', [], ''int'']\<rparr>,
          function_name = ''b''\<rparr>
   \<and> [\<lparr>type = \<lparr>type_string = ''int'', type_components = [''int'']\<rparr>, name = ''a''\<rparr>,
       \<lparr>type = \<lparr>type_string = ''  int'', type_components = [[], [], ''int'']\<rparr>, name = ''b''\<rparr>]
     \<noteq> [\<lparr>type = \<lparr>type_string = ''int'', type_components = [''int'']\<rparr>, name = ''a''\<rparr>,
        \<lparr>type = \<lparr>type_string = '' int'', type_components = [[], ''int'']\<rparr>, name = ''b''\<rparr>]"
  by code_simp

text \<open>
  C3 (amended). For every prototype line, re-parsing the canonical parameter string of
  its model succeeds and gives as many parameters as the model has, with the same names.
  The first parameter is identical; every later parameter has the type string of the
  original with one more space in front. The parameters are therefore identical exactly
  when the model has one parameter.
\<close>

theorem reparse_canonical_parameters:
  assumes "FunctionPrototype_init line = Inr p"
  shows "\<exists>q. FunctionPrototype_init (get_string_of_parameters p) = Inr q
           \<and> parameters q =
               hd (parameters p)
               # map (\<lambda>a. a\<lparr>type := Type_init (CHR '' '' # type_string (type a))\<rparr>)
                   (tl (parameters p))
           \<and> map name (parameters q) = map name (parameters p)
           \<and> (parameters q = parameters p) = (length (parameters p) = 1)"
proof -
  let ?shift = "\<lambda>a. a\<lparr>type := Type_init (CHR '' '' # type_string (type a))\<rparr>"
  let ?q = "parsed_prototype (get_string_of_parameters p)"
  from assms have p: "p = parsed_prototype line"
    by (simp add: FunctionPrototype_init_total)
  have ne: "parameters p \<noteq> []"
    using assms by (rule parameters_never_empty)
  have q: "parameters ?q = hd (parameters p) # map ?shift (tl (parameters p))"
    unfolding p by (rule reparse_parameters)
  have names: "map name (parameters ?q) = map name (parameters p)"
    using ne by (cases "parameters p") (simp_all add: q comp_def)
  have differs: "?shift a \<noteq> a" for a :: FunctionParameter
  proof
    assume "?shift a = a"
    then have "type_string (type (?shift a)) = type_string (type a)"
      by simp
    then show False by simp
  qed
  have same: "(parameters ?q = parameters p) = (length (parameters p) = 1)"
  proof (cases "parameters p")
    case Nil
    with ne show ?thesis by simp
  next
    case (Cons a rest)
    show ?thesis
    proof (cases rest)
      case Nil
      with Cons show ?thesis by (simp add: q)
    next
      case (Cons b rest')
      with \<open>parameters p = a # rest\<close> differs [of b] show ?thesis
        by (simp add: q)
    qed
  qed
  show ?thesis
    using q names same by (intro exI [of _ ?q]) (simp add: FunctionPrototype_init_total)
qed

theorem reparse_canonical_parameters_witness:
  "FunctionPrototype_init ''int f(int a, int b)'' =
     Inr \<lparr>parameters =
            [\<lparr>type = \<lparr>type_string = ''int'', type_components = [''int'']\<rparr>, name = ''a''\<rparr>,
             \<lparr>type = \<lparr>type_string = '' int'', type_components = [[], ''int'']\<rparr>, name = ''b''\<rparr>],
          ret = \<lparr>type_string = ''int'', type_components = [''int'']\<rparr>,
          function_name = ''f''\<rparr>
   \<and> (\<exists>q. FunctionPrototype_init ''int a,  int b'' = Inr q
          \<and> parameters q =
             [\<lparr>type = \<lparr>type_string = ''int'', type_components = [''int'']\<rparr>, name = ''a''\<rparr>,
              \<lparr>type = \<lparr>type_string = ''  int'', type_components = [[], [], ''int'']\<rparr>,
                 name = ''b''\<rparr>]
          \<and> map name (parameters q) = [''a'', ''b''])"
proof -
  let ?p = "\<lparr>parameters =
            [\<lparr>type = \<lparr>type_string = ''int'', type_components = [''int'']\<rparr>, name = ''a''\<rparr>,
             \<lparr>type = \<lparr>type_string = '' int'', type_components = [[], ''int'']\<rparr>, name = ''b''\<rparr>],
          ret = \<lparr>type_string = ''int'', type_components = [''int'']\<rparr>,
          function_name = ''f''\<rparr>"
  have h: "FunctionPrototype_init ''int f(int a, int b)'' = Inr ?p"
    by code_simp
  have s: "get_string_of_parameters ?p = ''int a,  int b''"
    by code_simp
  show ?thesis
    using h reparse_canonical_parameters [OF h]
    by (auto simp: s Type_init_def)
qed

subsection \<open>The record-type emitter\<close>

lemma args_struct_fields_eq:
  "args_struct_fields ps code =
     code @ concat (map (\<lambda>q. TAB # get_full_expression q @ '';\<newline>'') ps)"
  by (induction ps arbitrary: code) simp_all

lemma or_empty_id [simp]: "or_empty xs = xs"
  by (simp add: or_empty_def)

text \<open>
  C5. For every prototype the emitted record type lists one field per parameter, in the
  order of the parameter list, each field being the parameter's full expression; the
  field \<open>ret\<close> of the return type follows exactly when the return type is not void; and
  the aggregate is closed with the packed attribute and the record-type name.
\<close>

theorem args_struct_layout:
  "generate_args_struct p =
     ''typedef struct {\<newline>'' @ TAB # ''// Parameters:\<newline>''
     @ concat (map (\<lambda>q. TAB # get_full_expression q @ '';\<newline>'') (parameters p))
     @ (if is_void (ret p) then []
        else TAB # ''// Return value:\<newline>'' @ TAB # type_string (ret p) @ '' ret;\<newline>'')
     @ ''} __attribute__((packed)) '' @ get_args_struct_name p @ '';\<newline>\<newline>''"
  by (simp add: generate_args_struct_def Let_def args_struct_fields_eq)

lemma scenario_A_struct:
  "map_sum id generate_args_struct
     (FunctionPrototype_init
        ''int ibv_rereg_mr(struct ibv_mr * mr, int flags, struct ibv_pd * pd)'') =
   Inr (''typedef struct {\<newline>'' @ TAB # ''// Parameters:\<newline>''
        @ TAB # ''struct ibv_mr * mr;\<newline>''
        @ TAB # '' int flags;\<newline>''
        @ TAB # '' struct ibv_pd * pd;\<newline>''
        @ TAB # ''// Return value:\<newline>''
        @ TAB # ''int ret;\<newline>''
        @ ''} __attribute__((packed)) uhyve_ibv_rereg_mr_t;\<newline>\<newline>'')"
  by code_simp

subsection \<open>The guest-stub emitter\<close>

lemma kernel_function_params_eq:
  "(\<And>q. q \<in> set ps \<Longrightarrow> \<exists>b. param_is_pointer_pointer q = Inr b) \<Longrightarrow>
   kernel_function_params ps code =
     Inr (code @ concat (map (\<lambda>q.
            if param_is_pointer_pointer q = Inr True
            then TAB # ''// TODO: Take care of ** parameter.\<newline>''
            else TAB # ''uhyve_args.'' @ name q @ '' = '' @ name q @ '';\<newline>'') ps))"
proof (induction ps arbitrary: code)
  case Nil
  show ?case by simp
next
  case (Cons p ps)
  from Cons.prems [of p] obtain b where b: "param_is_pointer_pointer p = Inr b"
    by auto
  have rest: "\<And>q. q \<in> set ps \<Longrightarrow> \<exists>b. param_is_pointer_pointer q = Inr b"
    using Cons.prems by simp
  show ?case
    by (cases b) (simp_all add: b Cons.IH [OF rest])
qed

lemma parsed_param_pointer_pointer:
  "param_is_pointer_pointer (parsed_parameter f) =
     Inr (last (str_split CHR '' '' (str_join '' '' (butlast (str_split CHR '' '' f)))) = ''**'')"
  by (simp add: param_is_pointer_pointer_def parsed_parameter_def is_pointer_pointer_iff)

text \<open>
  C6. For every parsed prototype the guest-stub emitter returns a text (it does not
  raise). After the signature and the declaration of the local record, the text holds one
  line per parameter, in order: the marked placeholder comment when the parameter is a
  pointer to a pointer, the copy of the parameter into the field of its name otherwise.
  After the call of \<open>uhyve_send\<close> it holds the return of the field \<open>ret\<close> exactly when
  the return type is not void, and nothing in its place for void.
\<close>

theorem kernel_function_layout:
  assumes "FunctionPrototype_init line = Inr p"
  shows "generate_kernel_function p =
     Inr (type_string (ret p) @ '' '' @ function_name p @ ''('' @ get_string_of_parameters p
            @ '') {\<newline>''
          @ TAB # get_args_struct_name p @ '' uhyve_args;\<newline>''
          @ concat (map (\<lambda>q.
              if param_is_pointer_pointer q = Inr True
              then TAB # ''// TODO: Take care of ** parameter.\<newline>''
              else TAB # ''uhyve_args.'' @ name q @ '' = '' @ name q @ '';\<newline>'')
              (parameters p))
          @ ''\<newline>''
          @ TAB # ''uhyve_send('' @ get_port_name p
            @ '', (unsigned) virt_to_phys((size_t) &uhyve_args));\<newline>''
          @ (if is_void (ret p) then []
             else ''\<newline>'' @ TAB # ''return uhyve_args.ret;\<newline>'')
          @ ''}\<newline>\<newline>'')"
proof -
  from assms have p: "p = parsed_prototype line"
    by (simp add: FunctionPrototype_init_total)
  have ok: "\<And>q. q \<in> set (parameters p) \<Longrightarrow> \<exists>b. param_is_pointer_pointer q = Inr b"
    by (auto simp: p parsed_prototype_def parsed_param_pointer_pointer)
  show ?thesis
    by (simp add: generate_kernel_function_def Let_def kernel_function_params_eq [OF ok])
qed

theorem kernel_function_layout_witness:
  "FunctionPrototype_init ''void g(struct ibv_context ** ctx, int n)'' =
     Inr \<lparr>parameters =
            [\<lparr>type = \<lparr>type_string = ''struct ibv_context **'',
                      type_components = [''struct'', ''ibv_context'', ''**'']\<rparr>,
               name = ''ctx''\<rparr>,
             \<lparr>type = \<lparr>type_string = '' int'', type_components = [[], ''int'']\<rparr>,
               name = ''n''\<rparr>],
          ret = \<lparr>type_string = ''void'', type_components = [''void'']\<rparr>,
          function_name = ''g''\<rparr>
   \<and> generate_kernel_function
       \<lparr>parameters =
            [\<lparr>type = \<lparr>type_string = ''struct ibv_context **'',
                      type_components = [''struct'', ''ibv_context'', ''**'']\<rparr>,
               name = ''ctx''\<rparr>,
             \<lparr>type = \<lparr>type_string = '' int'', type_components = [[], ''int'']\<rparr>,
               name = ''n''\<rparr>],
          ret = \<lparr>type_string = ''void'', type_components = [''void'']\<rparr>,
          function_name = ''g''\<rparr> =
     Inr (''void g(struct ibv_context ** ctx,  int n) {\<newline>''
          @ TAB # ''uhyve_g_t uhyve_args;\<newline>''
          @ TAB # ''// TODO: Take care of ** parameter.\<newline>''
          @ TAB # ''uhyve_args.n = n;\<newline>''
          @ ''\<newline>''
          @ TAB # ''uhyve_send(UHYVE_PORT_G, (unsigned) virt_to_phys((size_t) &uhyve_args));\<newline>''
          @ ''}\<newline>\<newline>'')"
proof -
  let ?p = "\<lparr>parameters =
            [\<lparr>type = \<lparr>type_string = ''struct ibv_context **'',
                      type_components = [''struct'', ''ibv_context'', ''**'']\<rparr>,
               name = ''ctx''\<rparr>,
             \<lparr>type = \<lparr>type_string = '' int'', type_components = [[], ''int'']\<rparr>,
               name = ''n''\<rparr>],
          ret = \<lparr>type_string = ''void'', type_components = [''void'']\<rparr>,
          function_name = ''g''\<rparr>"
  have h: "FunctionPrototype_init ''void g(struct ibv_context ** ctx, int n)'' = Inr ?p"
    by code_simp
  show ?thesis
    using h kernel_function_layout [OF h]
    by (simp add: param_is_pointer_pointer_def is_pointer_pointer_def py_index_def
        get_string_of_parameters_def get_full_expression_def get_args_struct_name_def
        get_port_name_def upper_def upper_char_def is_void_def)
qed

lemma scenario_B_no_return:
  "py_bind (FunctionPrototype_init ''void ibv_ack_async_event(struct ibv_async_event * event)'')
     generate_kernel_function =
   Inr (''void ibv_ack_async_event(struct ibv_async_event * event) {\<newline>''
        @ TAB # ''uhyve_ibv_ack_async_event_t uhyve_args;\<newline>''
        @ TAB # ''uhyve_args.event = event;\<newline>''
        @ ''\<newline>''
        @ TAB # ''uhyve_send(UHYVE_PORT_IBV_ACK_ASYNC_EVENT, (unsigned) virt_to_phys((size_t) &uhyve_args));\<newline>''
        @ ''}\<newline>\<newline>'')"
  by code_simp

subsection \<open>The port tables\<close>

lemma port_enum_loop_eq:
  "port_enum_loop es code =
     code @ concat (map (\<lambda>(num, pt). TAB # get_port_name pt @ '' = 0x'' @ format_X num @ '',\<newline>'') es)"
  by (induction es code rule: port_enum_loop.induct) (simp_all add: Let_def)

lemma port_macros_loop_eq:
  "port_macros_loop es code =
     code @ concat (map (\<lambda>(num, pt). ''#define '' @ get_port_name pt @ '' 0x'' @ format_X num @ ''\<newline>'') es)"
  by (induction es code rule: port_macros_loop.induct) (simp_all add: Let_def)

lemma map_upt_Suc0: "map f [0..<Suc n] = f 0 # map (\<lambda>i. f (Suc i)) [0..<n]"
  by (simp add: upt_conv_Cons map_Suc_upt [symmetric] del: upt_Suc)

lemma enumerate_py_eq:
  "enumerate_py xs start = map (\<lambda>i. (start + int i, xs ! i)) [0..<length xs]"
proof (induction xs arbitrary: start)
  case Nil
  show ?case by simp
next
  case (Cons x xs)
  have "enumerate_py (x # xs) start = (start, x) # enumerate_py xs (start + 1)"
    by simp
  also have "\<dots> = (start, x) # map (\<lambda>i. (start + 1 + int i, xs ! i)) [0..<length xs]"
    by (simp only: Cons.IH)
  also have "\<dots> = map (\<lambda>i. (start + int i, (x # xs) ! i)) [0..<length (x # xs)]"
    by (simp add: map_upt_Suc0 add.assoc del: upt_Suc)
  finally show ?case .
qed

lemma generate_port_enum_from_eq:
  "generate_port_enum_from base pts =
     ''typedef enum {\<newline>''
     @ TAB # ''UHYVE_PORT_SET_IB_POOL_ADDR = 0x'' @ format_X (base - 1) @ '',\<newline>''
     @ concat (map (\<lambda>i. TAB # get_port_name (pts ! i) @ '' = 0x'' @ format_X (base + int i)
                           @ '',\<newline>'') [0..<length pts])
     @ ''} uhyve_ibv_t;''"
  by (simp add: generate_port_enum_from_def Let_def port_enum_loop_eq enumerate_py_eq comp_def)

lemma generate_port_macros_from_eq:
  "generate_port_macros_from base pts =
     ''#define UHYVE_PORT_SET_IB_POOL_ADDR 0x'' @ format_X (base - 1) @ ''\<newline>''
     @ concat (map (\<lambda>i. ''#define '' @ get_port_name (pts ! i) @ '' 0x''
                           @ format_X (base + int i) @ ''\<newline>'') [0..<length pts])"
  by (simp add: generate_port_macros_from_def Let_def port_macros_loop_eq enumerate_py_eq comp_def)

text \<open>
  C4. For every sequence of prototypes and every base, the emitted enumeration binds the
  reserved control port to \<open>base - 1\<close> and the port of the \<open>i\<close>-th prototype (counted
  from 0, in input order) to \<open>base + i\<close>, written in upper-case hexadecimal. With the
  script's base \<open>0x610\<close> and three prototypes named \<open>f1\<close>, \<open>f2\<close>, \<open>f3\<close> the codes are
  \<open>0x60F\<close>, \<open>0x610\<close>, \<open>0x611\<close>, \<open>0x612\<close>.
\<close>

theorem port_codes_from_base:
  "generate_port_enum_from base pts =
     ''typedef enum {\<newline>''
     @ TAB # ''UHYVE_PORT_SET_IB_POOL_ADDR = 0x'' @ format_X (base - 1) @ '',\<newline>''
     @ concat (map (\<lambda>i. TAB # get_port_name (pts ! i) @ '' = 0x'' @ format_X (base + int i)
                           @ '',\<newline>'') [0..<length pts])
     @ ''} uhyve_ibv_t;''
   \<and> PORT_NUMBER_START = 0x610
   \<and> generate_port_enum
       [p1\<lparr>function_name := ''f1''\<rparr>, p2\<lparr>function_name := ''f2''\<rparr>,
        p3\<lparr>function_name := ''f3''\<rparr>] =
     ''typedef enum {\<newline>''
     @ TAB # ''UHYVE_PORT_SET_IB_POOL_ADDR = 0x60F,\<newline>''
     @ TAB # ''UHYVE_PORT_F1 = 0x610,\<newline>''
     @ TAB # ''UHYVE_PORT_F2 = 0x611,\<newline>''
     @ TAB # ''UHYVE_PORT_F3 = 0x612,\<newline>''
     @ ''} uhyve_ibv_t;''"
proof (intro conjI)
  show "generate_port_enum_from base pts =
     ''typedef enum {\<newline>''
     @ TAB # ''UHYVE_PORT_SET_IB_POOL_ADDR = 0x'' @ format_X (base - 1) @ '',\<newline>''
     @ concat (map (\<lambda>i. TAB # get_port_name (pts ! i) @ '' = 0x'' @ format_X (base + int i)
                           @ '',\<newline>'') [0..<length pts])
     @ ''} uhyve_ibv_t;''"
    by (rule generate_port_enum_from_eq)
next
  show "PORT_NUMBER_START = 0x610"
    by (simp add: PORT_NUMBER_START_def)
next
  show "generate_port_enum
       [p1\<lparr>function_name := ''f1''\<rparr>, p2\<lparr>function_name := ''f2''\<rparr>,
        p3\<lparr>function_name := ''f3''\<rparr>] =
     ''typedef enum {\<newline>''
     @ TAB # ''UHYVE_PORT_SET_IB_POOL_ADDR = 0x60F,\<newline>''
     @ TAB # ''UHYVE_PORT_F1 = 0x610,\<newline>''
     @ TAB # ''UHYVE_PORT_F2 = 0x611,\<newline>''
     @ TAB # ''UHYVE_PORT_F3 = 0x612,\<newline>''
     @ ''} uhyve_ibv_t;''"
    by (simp add: generate_port_enum_def generate_port_enum_from_def PORT_NUMBER_START_def
        Let_def get_port_name_def upper_def upper_char_def format_X_def hex_digit_def)
qed

text \<open>
  C9. The enumeration and the macros are two renderings of one table: for every sequence
  of prototypes and every base (the script's \<open>PORT_NUMBER_START\<close> among them), the
  enumeration is the table of the specification written binding by binding as
  \<open>NAME = 0xCODE,\<close>, and the macros are the same table, in the same order, written as
  \<open>#define NAME 0xCODE\<close>; the reserved control port at \<open>base - 1\<close> comes first in both.
\<close>

theorem port_enum_and_macros_agree:
  "generate_port_enum_from base pts =
     ''typedef enum {\<newline>'' @ concat (map enum_binding (spec_port_table base pts))
     @ ''} uhyve_ibv_t;''
   \<and> generate_port_macros_from base pts = concat (map macro_binding (spec_port_table base pts))
   \<and> generate_port_enum pts =
     ''typedef enum {\<newline>'' @ concat (map enum_binding (spec_port_table PORT_NUMBER_START pts))
     @ ''} uhyve_ibv_t;''
   \<and> generate_port_macros pts =
     concat (map macro_binding (spec_port_table PORT_NUMBER_START pts))"
  by (simp add: generate_port_enum_def generate_port_macros_def generate_port_enum_from_eq
      generate_port_macros_from_eq spec_port_table_def enum_binding_def macro_binding_def
      comp_def)

subsection \<open>The guest-stub emitter on a whole input\<close>

text \<open>The guest-stub emitter is the only emitter that can raise. On the prototypes parsed
  from the lines of an input it returns a text for each of them.\<close>

lemma kernel_functions_total:
  "\<exists>texts. map_result generate_kernel_function (map parsed_prototype ls) = Inr texts"
proof (induction ls)
  case Nil
  show ?case by simp
next
  case (Cons l ls)
  have ok: "\<And>q. q \<in> set (parameters (parsed_prototype l))
              \<Longrightarrow> \<exists>b. param_is_pointer_pointer q = Inr b"
    by (auto simp: parsed_prototype_def parsed_param_pointer_pointer)
  obtain t where t: "generate_kernel_function (parsed_prototype l) = Inr t"
    by (simp add: generate_kernel_function_def Let_def kernel_function_params_eq [OF ok])
  from Cons obtain ts where
    "map_result generate_kernel_function (map parsed_prototype ls) = Inr ts"
    by auto
  with t show ?case by simp
qed

end
